theory Spec2Isabelle
  imports Complex_Main "HOL-Library.List_Lexorder"
begin

section \<open>pyDrop coarse-graining: the bin functions\<close>

text \<open>
  The embedding follows \<^verbatim>\<open>pyDrop/clustering/course_graining.py\<close>.
  Python floats are read as exact real numbers: rounding, infinities and NaN are
  not part of the model, so every statement below is about the arithmetic the
  code writes down, evaluated exactly. Bin ids are integers.
\<close>

datatype error =
    ZeroDivisionError
  | TypeError
  | ValueError
  | AssertionError
  | AttributeError
  | NotFittedError
  | AmbiguousCGFunction
  | ModelValueError

text \<open>
  \<^verbatim>\<open>int(x)\<close> on a float truncates towards zero;
  \<^verbatim>\<open>a // b\<close> on floats is the floor of the quotient.
\<close>

definition py_int :: "real \<Rightarrow> int" where
  "py_int x = (if 0 \<le> x then \<lfloor>x\<rfloor> else - \<lfloor>- x\<rfloor>)"

definition py_floordiv :: "real \<Rightarrow> real \<Rightarrow> real" where
  "py_floordiv a b = real_of_int \<lfloor>a / b\<rfloor>"

text \<open>
  The three classes. \<^verbatim>\<open>ArrangeBins\<close> is a subclass of
  \<^verbatim>\<open>LinSpaceBins\<close> that only replaces the constructor, so its
  instances are \<open>LinSpaceBins\<close> values whose \<open>n_bins\<close> is derived from the step.
\<close>

datatype binf =
    ModuloBins (mod_v: int) (rem: int)
  | LinSpaceBins (min_v: real) (max_v: real) (n_bins: int) (step: real)

definition ModuloBins_init :: "int \<Rightarrow> int \<Rightarrow> binf" where
  "ModuloBins_init m r = ModuloBins m r"

text \<open>\<^verbatim>\<open>self.step = float(max-min)/n_bins\<close> raises for \<open>n_bins = 0\<close>.\<close>

definition LinSpaceBins_init :: "real \<Rightarrow> real \<Rightarrow> int \<Rightarrow> error + binf" where
  "LinSpaceBins_init mn mx n =
     (if n = 0 then Inl ZeroDivisionError
      else Inr (LinSpaceBins mn mx n ((mx - mn) / real_of_int n)))"

text \<open>
  \<^verbatim>\<open>len(np.arange(min, max, step))\<close>: the number of points
  \<open>min, min + step, ...\<close> before \<open>max\<close>; \<open>np.arange\<close> raises for a zero step.
\<close>

definition arange_len :: "real \<Rightarrow> real \<Rightarrow> real \<Rightarrow> int" where
  "arange_len mn mx st = max 0 \<lceil>(mx - mn) / st\<rceil>"

definition ArrangeBins_init :: "real \<Rightarrow> real \<Rightarrow> real \<Rightarrow> error + binf" where
  "ArrangeBins_init mn mx st =
     (if st = 0 then Inl ZeroDivisionError
      else Inr (LinSpaceBins mn mx (arange_len mn mx st) st))"

subsection \<open>The scalar methods\<close>

fun id_to_bin_start :: "binf \<Rightarrow> int \<Rightarrow> real" where
  "id_to_bin_start (ModuloBins m r) idx = real_of_int (idx * m + r)"
| "id_to_bin_start (LinSpaceBins mn mx n st) idx =
     (if idx \<ge> n then mx - st
      else if idx < 0 then mn
      else mn + real_of_int idx * st)"

fun id_to_bin_center :: "binf \<Rightarrow> int \<Rightarrow> real" where
  "id_to_bin_center (ModuloBins m r) idx = real_of_int (idx * m + r) + real_of_int m / 2"
| "id_to_bin_center (LinSpaceBins mn mx n st) idx =
     (if idx \<ge> n then mx - (st / 2)
      else if idx < 0 then mn + (st / 2)
      else mn + real_of_int idx * st + st / 2)"

text \<open>
  \<^verbatim>\<open>int((value-self.rem)/self.mod)\<close> and
  \<^verbatim>\<open>int((value - self.min) // self.step)\<close>. A zero divisor raises
  (\<open>ZeroDivisionError\<close> on Python numbers; on numpy scalars the quotient is
  infinite or NaN and \<open>int\<close> raises): the model returns one error for both.
\<close>

fun value_to_id :: "binf \<Rightarrow> real \<Rightarrow> error + int" where
  "value_to_id (ModuloBins m r) v =
     (if m = 0 then Inl ZeroDivisionError
      else Inr (py_int ((v - real_of_int r) / real_of_int m)))"
| "value_to_id (LinSpaceBins mn mx n st) v =
     (if v \<le> mn then Inr 0
      else if v > mx then Inr n
      else if st = 0 then Inl ZeroDivisionError
      else Inr (py_int (py_floordiv (v - mn) st)))"

section \<open>Arrays\<close>

text \<open>
  A numpy array of one or two dimensions. \<open>Array2 c rows\<close> has shape
  \<open>(length rows, c)\<close>; the column count is kept apart from the rows so that a matrix
  without rows still has its shape.
\<close>

datatype 'a ndarray = Array1 "'a list" | Array2 nat "'a list list"

fun wf_array :: "'a ndarray \<Rightarrow> bool" where
  "wf_array (Array1 xs) = True"
| "wf_array (Array2 c rows) = list_all (\<lambda>r. length r = c) rows"

text \<open>\<^verbatim>\<open>if len(a.shape) == 1: a = a.reshape(-1, 1)\<close>\<close>

fun reshape_col :: "'a ndarray \<Rightarrow> nat \<times> 'a list list" where
  "reshape_col (Array1 xs) = (1, map (\<lambda>x. [x]) xs)"
| "reshape_col (Array2 c rows) = (c, rows)"

text \<open>\<^verbatim>\<open>a[:, i]\<close> and \<^verbatim>\<open>a[:, i] = col\<close>\<close>

definition column :: "'a list list \<Rightarrow> nat \<Rightarrow> 'a list" where
  "column rows i = map (\<lambda>r. r ! i) rows"

definition set_column :: "'a list list \<Rightarrow> nat \<Rightarrow> 'a list \<Rightarrow> 'a list list" where
  "set_column rows i col = map (\<lambda>(r, x). r[i := x]) (zip rows col)"

definition zeros :: "nat \<Rightarrow> nat \<Rightarrow> ('a::zero) list list" where
  "zeros n c = replicate n (replicate c 0)"

fun mapM :: "('a \<Rightarrow> error + 'b) \<Rightarrow> 'a list \<Rightarrow> error + 'b list" where
  "mapM f [] = Inr []"
| "mapM f (x # xs) =
     (case f x of
        Inl e \<Rightarrow> Inl e
      | Inr y \<Rightarrow> (case mapM f xs of Inl e \<Rightarrow> Inl e | Inr ys \<Rightarrow> Inr (y # ys)))"

text \<open>
  \<^verbatim>\<open>np.vectorize(f)\<close>, built without \<open>otypes\<close>, applies \<open>f\<close> to each
  element; called on an array of size 0 it raises
  \<^verbatim>\<open>ValueError: cannot call `vectorize` on size 0 inputs unless `otypes` is set\<close>.
\<close>

definition vectorize :: "('a \<Rightarrow> error + 'b) \<Rightarrow> 'a list \<Rightarrow> error + 'b list" where
  "vectorize f xs = (if xs = [] then Inl ValueError else mapM f xs)"

text \<open>
  \<^verbatim>\<open>np.unique(a, axis=0)\<close>: the distinct rows, in lexicographic order.
\<close>

fun unique_rows :: "('a::linorder) ndarray \<Rightarrow> 'a ndarray" where
  "unique_rows (Array1 xs) = Array1 (sort (remdups xs))"
| "unique_rows (Array2 c rows) = Array2 c (sort (remdups rows))"

section \<open>Bins: one bin function per column\<close>

datatype binf_class = ModuloBins_class | LinSpaceBins_class | ArrangeBins_class

record Bins =
  default_binf :: binf_class
  bin_functions :: "binf list"

definition Bins_new :: "binf_class option \<Rightarrow> Bins" where
  "Bins_new cls =
     \<lparr>default_binf = (case cls of None \<Rightarrow> ModuloBins_class | Some c \<Rightarrow> c),
      bin_functions = []\<rparr>"

text \<open>
  \<^verbatim>\<open>self.default_binf()\<close>: only \<open>ModuloBins\<close> can be built without
  arguments (\<open>mod=100, rem=0\<close>).
\<close>

fun call_default_binf :: "binf_class \<Rightarrow> error + binf" where
  "call_default_binf ModuloBins_class = Inr (ModuloBins_init 100 0)"
| "call_default_binf LinSpaceBins_class = Inl TypeError"
| "call_default_binf ArrangeBins_class = Inl TypeError"

text \<open>
  Methods that mutate return the outcome together with the object as the call leaves it:
  an exception does not undo the appends made before it.
\<close>

definition add_axis :: "binf option \<Rightarrow> Bins \<Rightarrow> (error + unit) \<times> Bins" where
  "add_axis binf B =
     (case binf of
        Some b \<Rightarrow> (Inr (), B\<lparr>bin_functions := bin_functions B @ [b]\<rparr>)
      | None \<Rightarrow>
          (case call_default_binf (default_binf B) of
             Inl e \<Rightarrow> (Inl e, B)
           | Inr b \<Rightarrow> (Inr (), B\<lparr>bin_functions := bin_functions B @ [b]\<rparr>)))"

fun add_axes :: "binf option list \<Rightarrow> Bins \<Rightarrow> (error + unit) \<times> Bins" where
  "add_axes [] B = (Inr (), B)"
| "add_axes (binf # binfs) B =
     (case add_axis binf B of
        (Inl e, B') \<Rightarrow> (Inl e, B')
      | (Inr u, B') \<Rightarrow> add_axes binfs B')"

definition get_num_axes :: "Bins \<Rightarrow> nat" where
  "get_num_axes B = length (bin_functions B)"

text \<open>
  The loop shared by the three matrix methods:
  \<^verbatim>\<open>for binf, axis_idx in zip(self.bin_functions, range(n_features)):
      out[:,axis_idx] = binf.f(a[:,axis_idx])\<close>
\<close>

fun bins_loop ::
  "(binf \<Rightarrow> 'a \<Rightarrow> error + 'b) \<Rightarrow> (binf \<times> nat) list \<Rightarrow> 'a list list \<Rightarrow> 'b list list
     \<Rightarrow> error + 'b list list" where
  "bins_loop f [] a out = Inr out"
| "bins_loop f ((binf, axis_idx) # rest) a out =
     (case vectorize (f binf) (column a axis_idx) of
        Inl e \<Rightarrow> Inl e
      | Inr col \<Rightarrow> bins_loop f rest a (set_column out axis_idx col))"

definition bins_apply ::
  "(binf \<Rightarrow> 'a \<Rightarrow> error + ('b::zero)) \<Rightarrow> Bins \<Rightarrow> 'a ndarray \<Rightarrow> error + 'b ndarray" where
  "bins_apply f B a =
     (case reshape_col a of
        (n_features, rows) \<Rightarrow>
          if n_features \<noteq> length (bin_functions B) then Inl AssertionError
          else
            (case bins_loop f (zip (bin_functions B) [0..<n_features]) rows
                    (zeros (length rows) n_features) of
               Inl e \<Rightarrow> Inl e
             | Inr out \<Rightarrow> Inr (Array2 n_features out)))"

definition Bins_id_to_bin_start :: "Bins \<Rightarrow> int ndarray \<Rightarrow> error + real ndarray" where
  "Bins_id_to_bin_start = bins_apply (\<lambda>binf idx. Inr (id_to_bin_start binf idx))"

definition Bins_id_to_bin_center :: "Bins \<Rightarrow> int ndarray \<Rightarrow> error + real ndarray" where
  "Bins_id_to_bin_center = bins_apply (\<lambda>binf idx. Inr (id_to_bin_center binf idx))"

definition Bins_value_to_id :: "Bins \<Rightarrow> real ndarray \<Rightarrow> error + int ndarray" where
  "Bins_value_to_id = bins_apply value_to_id"

section \<open>The object store\<close>

text \<open>
  \<open>Bins\<close> objects and clustering models are mutable and shared by reference, so they
  live in a store and the wrappers hold addresses. The clustering models are external
  (scikit-learn): their state is a type parameter \<open>'m\<close> and their methods are
  passed in as a record of operations.
\<close>

type_synonym addr = nat

record 'm heap =
  bins_heap :: "addr \<Rightarrow> Bins"
  model_heap :: "addr \<Rightarrow> 'm"
  next_addr :: addr

definition empty_heap :: "'m \<Rightarrow> 'm heap" where
  "empty_heap m0 = \<lparr>bins_heap = (\<lambda>a. Bins_new None), model_heap = (\<lambda>a. m0), next_addr = 0\<rparr>"

definition alloc_bins :: "Bins \<Rightarrow> 'm heap \<Rightarrow> addr \<times> 'm heap" where
  "alloc_bins B h =
     (next_addr h,
      h\<lparr>bins_heap := (bins_heap h)(next_addr h := B), next_addr := Suc (next_addr h)\<rparr>)"

definition alloc_model :: "'m \<Rightarrow> 'm heap \<Rightarrow> addr \<times> 'm heap" where
  "alloc_model m h =
     (next_addr h,
      h\<lparr>model_heap := (model_heap h)(next_addr h := m), next_addr := Suc (next_addr h)\<rparr>)"

definition deepcopy :: "addr \<Rightarrow> 'm heap \<Rightarrow> addr \<times> 'm heap" where
  "deepcopy a h = alloc_model (model_heap h a) h"

type_synonym labels = "int list"

datatype param = N_init_auto | N_init int | Init "real ndarray"

record 'm model_ops =
  fit_op :: "real ndarray \<Rightarrow> 'm \<Rightarrow> (error + unit) \<times> 'm"
  predict_op :: "real ndarray \<Rightarrow> 'm \<Rightarrow> error + labels"
  fit_predict_op :: "real ndarray \<Rightarrow> 'm \<Rightarrow> (error + labels) \<times> 'm"
  set_params_op :: "param \<Rightarrow> 'm \<Rightarrow> (error + unit) \<times> 'm"
  cluster_centers_op :: "'m \<Rightarrow> error + real ndarray"

definition update_model ::
  "addr \<Rightarrow> ('m \<Rightarrow> (error + 'a) \<times> 'm) \<Rightarrow> 'm heap \<Rightarrow> (error + 'a) \<times> 'm heap" where
  "update_model a f h =
     (case f (model_heap h a) of
        (r, m') \<Rightarrow> (r, h\<lparr>model_heap := (model_heap h)(a := m')\<rparr>))"

text \<open>
  The default arguments \<^verbatim>\<open>bins=Bins()\<close>, \<^verbatim>\<open>model=OPTICS()\<close> and
  \<^verbatim>\<open>k_means_model=KMeans()\<close> are evaluated once each, when the two
  \<open>__init__\<close> functions are defined: four objects, in this order.
\<close>

record module_defaults =
  CGCluster_default_bins :: addr
  CGCluster_default_model :: addr
  KMCalico_default_bins :: addr
  KMCalico_default_model :: addr

definition load_module :: "'m \<Rightarrow> 'm \<Rightarrow> 'm heap \<Rightarrow> module_defaults \<times> 'm heap" where
  "load_module optics kmeans h0 =
     (case alloc_bins (Bins_new None) h0 of (b1, h1) \<Rightarrow>
      case alloc_model optics h1 of (m1, h2) \<Rightarrow>
      case alloc_bins (Bins_new None) h2 of (b2, h3) \<Rightarrow>
      case alloc_model kmeans h3 of (m2, h4) \<Rightarrow>
        (\<lparr>CGCluster_default_bins = b1, CGCluster_default_model = m1,
          KMCalico_default_bins = b2, KMCalico_default_model = m2\<rparr>, h4))"

section \<open>CGCluster\<close>

record CGCluster =
  bins :: addr
  model :: addr
  coarse_model :: addr

definition CGCluster_init ::
  "module_defaults \<Rightarrow> addr option \<Rightarrow> addr option \<Rightarrow> 'm heap \<Rightarrow> CGCluster \<times> 'm heap" where
  "CGCluster_init d bins_arg model_arg h =
     (let b = (case bins_arg of None \<Rightarrow> CGCluster_default_bins d | Some a \<Rightarrow> a);
          m = (case model_arg of None \<Rightarrow> CGCluster_default_model d | Some a \<Rightarrow> a)
      in case deepcopy m h of
           (c, h') \<Rightarrow> (\<lparr>bins = b, model = m, coarse_model = c\<rparr>, h'))"

text \<open>
  \<^verbatim>\<open>fit_uniform_coarse_grain(self, n_features, binf=ModuloBins(100))\<close>;
  \<open>None\<close> stands for the omitted argument.
\<close>

definition fit_uniform_coarse_grain ::
  "'z CGCluster_scheme \<Rightarrow> int \<Rightarrow> binf option \<Rightarrow> 'm heap \<Rightarrow> (error + unit) \<times> 'm heap" where
  "fit_uniform_coarse_grain self n_features binf_arg h =
     (let binf = (case binf_arg of None \<Rightarrow> ModuloBins_init 100 0 | Some b \<Rightarrow> b);
          bin_functions = replicate (nat n_features) (Some binf)
      in case add_axes bin_functions (bins_heap h (bins self)) of
           (r, B') \<Rightarrow> (r, h\<lparr>bins_heap := (bins_heap h)(bins self := B')\<rparr>))"

text \<open>
  \<open>coarse_grain\<close>; the notice printed by the zero-axes branch is not modelled.
  \<^verbatim>\<open>n_samples, n_features = X.shape\<close> fails on a one-dimensional array.
\<close>

definition coarse_grain ::
  "'z CGCluster_scheme \<Rightarrow> real ndarray \<Rightarrow> 'm heap \<Rightarrow> (error + real ndarray) \<times> 'm heap" where
  "coarse_grain self X h =
     (case X of
        Array1 xs \<Rightarrow> (Inl ValueError, h)
      | Array2 n_features rows \<Rightarrow>
          (let n_defined_bins = get_num_axes (bins_heap h (bins self));
               (r, h1) =
                 (if n_defined_bins = 0
                  then fit_uniform_coarse_grain self (int n_features) None h
                  else if n_defined_bins < n_features then (Inl AmbiguousCGFunction, h)
                  else (Inr (), h))
           in case r of
                Inl e \<Rightarrow> (Inl e, h1)
              | Inr u \<Rightarrow>
                  (case Bins_value_to_id (bins_heap h1 (bins self)) X of
                     Inl e \<Rightarrow> (Inl e, h1)
                   | Inr x_grained_bins \<Rightarrow>
                       (case Bins_id_to_bin_center (bins_heap h1 (bins self))
                               (unique_rows x_grained_bins) of
                          Inl e \<Rightarrow> (Inl e, h1)
                        | Inr x_grained_centers \<Rightarrow> (Inr x_grained_centers, h1)))))"

definition CGCluster_fit ::
  "'m model_ops \<Rightarrow> 'z CGCluster_scheme \<Rightarrow> real ndarray \<Rightarrow> 'm heap \<Rightarrow> (error + unit) \<times> 'm heap"
  where
  "CGCluster_fit ops self X h =
     (case coarse_grain self X h of
        (Inl e, h1) \<Rightarrow> (Inl e, h1)
      | (Inr x_grained_centers, h1) \<Rightarrow>
          update_model (coarse_model self) (fit_op ops x_grained_centers) h1)"

definition CGCluster_predict ::
  "'m model_ops \<Rightarrow> 'z CGCluster_scheme \<Rightarrow> real ndarray \<Rightarrow> string \<Rightarrow> 'm heap
     \<Rightarrow> (error + labels) \<times> 'm heap" where
  "CGCluster_predict ops self X mode h =
     (if mode = ''coarse'' then (predict_op ops X (model_heap h (coarse_model self)), h)
      else if mode = ''default'' then update_model (model self) (fit_predict_op ops X) h
      else (Inl ModelValueError, h))"

section \<open>KMCalico\<close>

record KMCalico = CGCluster +
  fine_model :: addr

definition KMCalico_init ::
  "'m model_ops \<Rightarrow> module_defaults \<Rightarrow> addr option \<Rightarrow> addr option \<Rightarrow> 'm heap
     \<Rightarrow> (error + KMCalico) \<times> 'm heap" where
  "KMCalico_init ops d bins_arg model_arg h =
     (let b = (case bins_arg of None \<Rightarrow> KMCalico_default_bins d | Some a \<Rightarrow> a);
          m = (case model_arg of None \<Rightarrow> KMCalico_default_model d | Some a \<Rightarrow> a)
      in case deepcopy m h of (c, h1) \<Rightarrow>
         case update_model c (set_params_op ops N_init_auto) h1 of
           (Inl e, h2) \<Rightarrow> (Inl e, h2)
         | (Inr u, h2) \<Rightarrow>
             (case deepcopy m h2 of (f, h3) \<Rightarrow>
              case update_model f (set_params_op ops (N_init 1)) h3 of
                (Inl e, h4) \<Rightarrow> (Inl e, h4)
              | (Inr u, h4) \<Rightarrow>
                  (Inr \<lparr>bins = b, model = m, coarse_model = c, fine_model = f\<rparr>, h4)))"

definition KMCalico_fit ::
  "'m model_ops \<Rightarrow> KMCalico \<Rightarrow> real ndarray \<Rightarrow> 'm heap \<Rightarrow> (error + unit) \<times> 'm heap" where
  "KMCalico_fit ops self X h =
     (case coarse_grain self X h of
        (Inl e, h1) \<Rightarrow> (Inl e, h1)
      | (Inr x_grained_centers, h1) \<Rightarrow>
          (case update_model (coarse_model self) (fit_op ops x_grained_centers) h1 of
             (Inl e, h2) \<Rightarrow> (Inl e, h2)
           | (Inr u, h2) \<Rightarrow>
               (case cluster_centers_op ops (model_heap h2 (coarse_model self)) of
                  Inl e \<Rightarrow> (Inl e, h2)
                | Inr coarse_centers \<Rightarrow>
                    (case update_model (fine_model self)
                            (set_params_op ops (Init coarse_centers)) h2 of
                       (Inl e, h3) \<Rightarrow> (Inl e, h3)
                     | (Inr u, h3) \<Rightarrow>
                         update_model (fine_model self) (fit_op ops X) h3))))"

text \<open>
  \<open>predict\<close> reads \<open>cluster_centers_\<close> in every mode, also when the centers are not
  returned.
\<close>

definition KMCalico_predict ::
  "'m model_ops \<Rightarrow> KMCalico \<Rightarrow> real ndarray \<Rightarrow> string \<Rightarrow> bool \<Rightarrow> 'm heap
     \<Rightarrow> (error + labels \<times> real ndarray option) \<times> 'm heap" where
  "KMCalico_predict ops self X mode return_centers h =
     (let (sel, h1) =
            (if mode = ''fine''
             then ((case predict_op ops X (model_heap h (fine_model self)) of
                      Inl e \<Rightarrow> Inl e | Inr y \<Rightarrow> Inr (y, fine_model self)), h)
             else if mode = ''coarse''
             then ((case predict_op ops X (model_heap h (coarse_model self)) of
                      Inl e \<Rightarrow> Inl e | Inr y \<Rightarrow> Inr (y, coarse_model self)), h)
             else if mode = ''default''
             then (case update_model (model self) (fit_predict_op ops X) h of
                     (Inl e, h') \<Rightarrow> (Inl e, h')
                   | (Inr y, h') \<Rightarrow> (Inr (y, model self), h'))
             else (Inl ModelValueError, h))
      in case sel of
           Inl e \<Rightarrow> (Inl e, h1)
         | Inr (y_pred, a) \<Rightarrow>
             (case cluster_centers_op ops (model_heap h1 a) of
                Inl e \<Rightarrow> (Inl e, h1)
              | Inr centers \<Rightarrow>
                  (Inr (y_pred, if return_centers then Some centers else None), h1)))"

section \<open>A recording clustering model\<close>

text \<open>
  A stand-in for a centroid model, used to run the wrappers on concrete inputs: it
  remembers the parameters it was given and the data it was last fit on, reports that
  data as its centers and labels every sample 0.
\<close>

record rec_model =
  rec_params :: "param list"
  rec_fitted :: "real ndarray option"

definition rec_labels :: "real ndarray \<Rightarrow> labels" where
  "rec_labels X = map (\<lambda>r. 0) (snd (reshape_col X))"

definition rec_ops :: "rec_model model_ops" where
  "rec_ops =
     \<lparr>fit_op = (\<lambda>X m. (Inr (), m\<lparr>rec_fitted := Some X\<rparr>)),
      predict_op = (\<lambda>X m. case rec_fitted m of
                              None \<Rightarrow> Inl NotFittedError | Some D \<Rightarrow> Inr (rec_labels X)),
      fit_predict_op = (\<lambda>X m. (Inr (rec_labels X), m\<lparr>rec_fitted := Some X\<rparr>)),
      set_params_op = (\<lambda>p m. (Inr (), m\<lparr>rec_params := p # rec_params m\<rparr>)),
      cluster_centers_op = (\<lambda>m. case rec_fitted m of
                                    None \<Rightarrow> Inl AttributeError | Some D \<Rightarrow> Inr D)\<rparr>"

definition rec_new :: rec_model where
  "rec_new = \<lparr>rec_params = [], rec_fitted = None\<rparr>"

section \<open>Shapes and a sample run\<close>

text \<open>\<^verbatim>\<open>a.shape[0]\<close>, and the rows of an array read as a matrix.\<close>

fun n_rows :: "'a ndarray \<Rightarrow> nat" where
  "n_rows (Array1 xs) = length xs"
| "n_rows (Array2 c rows) = length rows"

fun rows_of :: "'a ndarray \<Rightarrow> 'a list list" where
  "rows_of (Array1 xs) = map (\<lambda>x. [x]) xs"
| "rows_of (Array2 c rows) = rows"

text \<open>
  The module is loaded with recording models as the two default models; one
  \<open>CGCluster()\<close> and then one \<open>KMCalico()\<close> are built with all arguments left out.
\<close>

definition demo_X :: "real ndarray" where
  "demo_X = Array2 2 [[1253, 254], [1260, 270], [3098, 490]]"

definition demo_module :: "module_defaults \<times> rec_model heap" where
  "demo_module = load_module rec_new rec_new (empty_heap rec_new)"

definition demo_cg :: "CGCluster \<times> rec_model heap" where
  "demo_cg = CGCluster_init (fst demo_module) None None (snd demo_module)"

definition demo_km :: "(error + KMCalico) \<times> rec_model heap" where
  "demo_km = KMCalico_init rec_ops (fst demo_module) None None (snd demo_cg)"

text \<open>The store after \<^verbatim>\<open>cg.bins.add_axis(ModuloBins(25))\<close> on the \<open>CGCluster\<close> above.\<close>

definition demo_one_axis :: "rec_model heap" where
  "demo_one_axis =
     (snd demo_km)\<lparr>bins_heap := (bins_heap (snd demo_km))
        (bins (fst demo_cg) :=
           snd (add_axis (Some (ModuloBins_init 25 0))
                  (bins_heap (snd demo_km) (bins (fst demo_cg)))))\<rparr>"

section \<open>Properties of the bin functions\<close>



lemma py_int_nonneg: "0 \<le> x \<Longrightarrow> py_int x = \<lfloor>x\<rfloor>"
  by (simp add: py_int_def)

lemma py_int_neg: "x < 0 \<Longrightarrow> py_int x = \<lceil>x\<rceil>"
  by (simp add: py_int_def ceiling_def)

lemma LinSpaceBins_init_Inr:
  "LinSpaceBins_init mn mx n = Inr b \<longleftrightarrow>
     n \<noteq> 0 \<and> b = LinSpaceBins mn mx n ((mx - mn) / real_of_int n)"
  by (auto simp: LinSpaceBins_init_def)

lemma ArrangeBins_init_Inr:
  "ArrangeBins_init mn mx st = Inr b \<longleftrightarrow>
     st \<noteq> 0 \<and> b = LinSpaceBins mn mx (arange_len mn mx st) st"
  by (auto simp: ArrangeBins_init_def)

lemma arange_len_nonneg: "0 \<le> arange_len mn mx st"
  by (simp add: arange_len_def)

subsection \<open>LinSpaceBins: value to id\<close>




subsection \<open>ModuloBins\<close>

lemma ModuloBins_id_to_bin:
  "id_to_bin_start (ModuloBins_init m r) i = real_of_int i * real_of_int m + real_of_int r"
  "id_to_bin_center (ModuloBins_init m r) i =
     real_of_int i * real_of_int m + real_of_int r + real_of_int m / 2"
  by (simp_all add: ModuloBins_init_def)

lemma ModuloBins_value_to_id_trunc:
  assumes "0 < m"
  shows "value_to_id (ModuloBins_init m r) v =
           Inr (if real_of_int r \<le> v then \<lfloor>(v - real_of_int r) / real_of_int m\<rfloor>
                else \<lceil>(v - real_of_int r) / real_of_int m\<rceil>)"
proof (cases "real_of_int r \<le> v")
  case True
  then have "0 \<le> (v - real_of_int r) / real_of_int m" using assms by simp
  then show ?thesis using True assms by (simp add: ModuloBins_init_def py_int_nonneg)
next
  case False
  then have "(v - real_of_int r) / real_of_int m < 0"
    using assms by (simp add: divide_neg_pos)
  then show ?thesis using False assms by (simp add: ModuloBins_init_def py_int_neg)
qed

text \<open>
  Claim C2: for \<open>ModuloBins(mod, rem)\<close> with positive \<open>mod\<close>, \<open>value_to_id(v)\<close> is the
  mathematical floor of \<open>(v - rem) / mod\<close>, also below \<open>rem\<close>. The code truncates with
  \<open>int\<close>: \<open>ModuloBins(100, 0)\<close> sends \<open>-50\<close> to id 0, where the floor is \<open>-1\<close>, so the
  value does not lie in the bin \<open>[0, 100)\<close> that its id names.
\<close>

theorem ModuloBins_value_to_id_negative:
  "value_to_id (ModuloBins_init 100 0) (- 50) = Inr 0 \<and>
   \<lfloor>(- 50 - real_of_int 0) / real_of_int 100\<rfloor> = (- 1 :: int) \<and>
   id_to_bin_start (ModuloBins_init 100 0) 0 = 0 \<and>
   id_to_bin_center (ModuloBins_init 100 0) 0 = 50"
  by (simp add: ModuloBins_init_def py_int_def)

subsection \<open>LinSpaceBins and ArrangeBins: id to bin start and center\<close>

text \<open>
  Claim C3: for \<open>LinSpaceBins\<close> (with a positive bin count) and \<open>ArrangeBins\<close>, an id at
  or above \<open>n_bins\<close> gives start \<open>max - step\<close> and center \<open>max - step/2\<close>, a negative id
  gives start \<open>min\<close> and center \<open>min + step/2\<close>, and an id in between gives start
  \<open>min + id*step\<close> and center \<open>min + id*step + step/2\<close>.
\<close>

theorem LinSpaceBins_id_to_bin_clamped:
  assumes "(LinSpaceBins_init mn mx n = Inr b \<and> 0 < n) \<or> ArrangeBins_init mn mx st = Inr b"
  shows "min_v b = mn \<and> max_v b = mx \<and>
         (idx \<ge> n_bins b \<longrightarrow>
            id_to_bin_start b idx = mx - step b \<and> id_to_bin_center b idx = mx - step b / 2) \<and>
         (idx < 0 \<longrightarrow>
            id_to_bin_start b idx = mn \<and> id_to_bin_center b idx = mn + step b / 2) \<and>
         (0 \<le> idx \<and> idx < n_bins b \<longrightarrow>
            id_to_bin_start b idx = mn + real_of_int idx * step b \<and>
            id_to_bin_center b idx = mn + real_of_int idx * step b + step b / 2)"
proof -
  from assms obtain k s where b: "b = LinSpaceBins mn mx k s" and k: "0 \<le> k"
    using arange_len_nonneg [of mn mx st]
    by (auto simp: LinSpaceBins_init_Inr ArrangeBins_init_Inr)
  show ?thesis using k by (simp add: b)
qed

theorem LinSpaceBins_id_to_bin_clamped_witness:
  "LinSpaceBins_init 0 3000 3 = Inr (LinSpaceBins 0 3000 3 1000) \<and>
   id_to_bin_start (LinSpaceBins 0 3000 3 1000) 3 = 2000 \<and>
   id_to_bin_center (LinSpaceBins 0 3000 3 1000) 3 = 2500 \<and>
   id_to_bin_start (LinSpaceBins 0 3000 3 1000) (- 1) = 0 \<and>
   id_to_bin_center (LinSpaceBins 0 3000 3 1000) (- 1) = 500 \<and>
   id_to_bin_start (LinSpaceBins 0 3000 3 1000) 1 = 1000 \<and>
   id_to_bin_center (LinSpaceBins 0 3000 3 1000) 1 = 1500"
  using LinSpaceBins_id_to_bin_clamped [of 0 3000 3 "LinSpaceBins 0 3000 3 1000" 0 3]
        LinSpaceBins_id_to_bin_clamped [of 0 3000 3 "LinSpaceBins 0 3000 3 1000" 0 "- 1"]
        LinSpaceBins_id_to_bin_clamped [of 0 3000 3 "LinSpaceBins 0 3000 3 1000" 0 1]
  by (simp add: LinSpaceBins_init_def)

subsection \<open>LinSpaceBins: the center of a value's bin\<close>



section \<open>Properties of the matrix methods\<close>

lemma mapM_length: "mapM f xs = Inr ys \<Longrightarrow> length ys = length xs"
  by (induction xs arbitrary: ys) (auto split: sum.splits)

lemma vectorize_length: "vectorize f xs = Inr ys \<Longrightarrow> length ys = length xs"
  by (auto simp: vectorize_def mapM_length split: if_splits)

lemma length_set_column: "length (set_column rows i col) = min (length rows) (length col)"
  by (simp add: set_column_def)

lemma length_column: "length (column rows i) = length rows"
  by (simp add: column_def)

lemma bins_loop_length:
  "bins_loop f zs a out = Inr res \<Longrightarrow> length out = length a \<Longrightarrow> length res = length a"
proof (induction zs arbitrary: out)
  case Nil
  then show ?case by simp
next
  case (Cons z zs)
  obtain b i where z: "z = (b, i)" by (cases z)
  from Cons.prems(1) obtain col where
    col: "vectorize (f b) (column a i) = Inr col" and
    rest: "bins_loop f zs a (set_column out i col) = Inr res"
    by (auto simp: z split: sum.splits)
  have "length col = length a" using vectorize_length [OF col] by (simp add: length_column)
  then have "length (set_column out i col) = length a"
    using Cons.prems(2) by (simp add: length_set_column)
  then show ?case using Cons.IH [OF rest] by simp
qed

lemma bins_apply_rows:
  assumes "bins_apply f B a = Inr r"
  shows "n_rows r = n_rows a \<and> (\<exists>out. r = Array2 (fst (reshape_col a)) out)"
proof -
  obtain c rows where rc: "reshape_col a = (c, rows)" by (cases "reshape_col a")
  from assms obtain out where
    l: "bins_loop f (zip (bin_functions B) [0..<c]) rows (zeros (length rows) c) = Inr out"
    and r: "r = Array2 c out"
    by (auto simp: bins_apply_def rc split: if_splits sum.splits)
  have "length out = length rows"
    using bins_loop_length [OF l] by (simp add: zeros_def)
  moreover have "length rows = n_rows a" using rc by (cases a) auto
  ultimately show ?thesis using r rc by simp
qed

lemma set_column_row_lengths:
  "list_all (\<lambda>r. length r = c) rows \<Longrightarrow> list_all (\<lambda>r. length r = c) (set_column rows i col)"
  by (auto simp: set_column_def list_all_iff dest: set_zip_leftD)

lemma bins_loop_row_lengths:
  "bins_loop f zs a out = Inr res \<Longrightarrow> list_all (\<lambda>r. length r = c) out \<Longrightarrow>
     list_all (\<lambda>r. length r = c) res"
proof (induction zs arbitrary: out)
  case Nil
  then show ?case by simp
next
  case (Cons z zs)
  obtain b i where z: "z = (b, i)" by (cases z)
  from Cons.prems(1) obtain col where
    rest: "bins_loop f zs a (set_column out i col) = Inr res"
    by (auto simp: z split: sum.splits)
  show ?case
    using Cons.IH [OF rest] set_column_row_lengths [OF Cons.prems(2)] by simp
qed

lemma zeros_row_lengths: "list_all (\<lambda>r. length r = c) (zeros n c)"
  by (simp add: zeros_def list_all_iff)

lemma bins_apply_wf: "bins_apply f B a = Inr r \<Longrightarrow> wf_array r"
proof -
  assume r: "bins_apply f B a = Inr r"
  obtain c rows where rc: "reshape_col a = (c, rows)" by (cases "reshape_col a")
  from r obtain out where
    l: "bins_loop f (zip (bin_functions B) [0..<c]) rows (zeros (length rows) c) = Inr out"
    and r': "r = Array2 c out"
    by (auto simp: bins_apply_def rc split: if_splits sum.splits)
  show ?thesis using bins_loop_row_lengths [OF l zeros_row_lengths] r' by simp
qed

lemma n_rows_unique_le: "n_rows (unique_rows a) \<le> n_rows a"
  by (cases a) simp_all

lemma n_rows_unique_eq: "n_rows (unique_rows a) = n_rows a \<longleftrightarrow> distinct (rows_of a)"
proof (cases a)
  case (Array1 xs)
  have "distinct (map (\<lambda>x. [x]) xs) = distinct xs"
    by (simp add: distinct_map inj_on_def)
  then show ?thesis using Array1 by simp
next
  case (Array2 c rows)
  then show ?thesis by simp
qed

lemma add_axes_Some:
  "add_axes (map Some bs) B = (Inr (), B\<lparr>bin_functions := bin_functions B @ bs\<rparr>)"
  by (induction bs arbitrary: B) (simp_all add: add_axis_def)

lemma fit_uniform_coarse_grain_appends:
  "fit_uniform_coarse_grain self n binf_arg h =
     (Inr (), h\<lparr>bins_heap := (bins_heap h)(bins self :=
        (bins_heap h (bins self))\<lparr>bin_functions := bin_functions (bins_heap h (bins self)) @
           replicate (nat n) (case binf_arg of None \<Rightarrow> ModuloBins_init 100 0 | Some b \<Rightarrow> b)\<rparr>)\<rparr>)"
  using add_axes_Some [of "replicate (nat n)
            (case binf_arg of None \<Rightarrow> ModuloBins_init 100 0 | Some b \<Rightarrow> b)"
          "bins_heap h (bins self)"]
  by (simp add: fit_uniform_coarse_grain_def Let_def)





subsection \<open>The sample run, evaluated\<close>

lemmas init_ev = load_module_def alloc_bins_def alloc_model_def deepcopy_def empty_heap_def
  CGCluster_init_def KMCalico_init_def update_model_def rec_ops_def rec_new_def Bins_new_def
  Let_def

lemma demo_module_defaults:
  "fst demo_module = \<lparr>CGCluster_default_bins = 0, CGCluster_default_model = 1,
          KMCalico_default_bins = 2, KMCalico_default_model = 3\<rparr>"
  by (simp add: demo_module_def init_ev)

lemma demo_cg_obj: "fst demo_cg = \<lparr>bins = 0, model = 1, coarse_model = 4\<rparr>"
  by (simp add: demo_cg_def demo_module_def init_ev)

lemma demo_km_obj:
  "fst demo_km = Inr \<lparr>bins = 2, model = 3, coarse_model = 5, fine_model = 6\<rparr>"
  by (simp add: demo_km_def demo_cg_def demo_module_def init_ev)

lemma demo_km_bins: "bins_heap (snd demo_km) a = Bins_new None"
  by (simp add: demo_km_def demo_cg_def demo_module_def init_ev)

lemma demo_km_models:
  "model_heap (snd demo_km) 1 = rec_new"
  "model_heap (snd demo_km) 3 = rec_new"
  "model_heap (snd demo_km) 4 = rec_new"
  "model_heap (snd demo_km) 5 = \<lparr>rec_params = [N_init_auto], rec_fitted = None\<rparr>"
  "model_heap (snd demo_km) 6 = \<lparr>rec_params = [N_init 1], rec_fitted = None\<rparr>"
  by (simp_all add: demo_km_def demo_cg_def demo_module_def init_ev)

lemma demo_coarse_grain:
  "get_num_axes (bins_heap h (bins self)) = 0 \<Longrightarrow>
   coarse_grain self demo_X h =
     (Inr (Array2 2 [[1250, 250], [3050, 450]]),
      h\<lparr>bins_heap := (bins_heap h)(bins self :=
          (bins_heap h (bins self))\<lparr>bin_functions := [ModuloBins 100 0, ModuloBins 100 0]\<rparr>)\<rparr>)"
  by (simp add: demo_X_def coarse_grain_def fit_uniform_coarse_grain_appends get_num_axes_def
      ModuloBins_init_def Bins_value_to_id_def Bins_id_to_bin_center_def bins_apply_def
      upt_rec zeros_def vectorize_def column_def set_column_def py_int_def eval_nat_numeral)

lemma demo_value_to_id:
  "Bins_value_to_id \<lparr>default_binf = ModuloBins_class,
        bin_functions = [ModuloBins 100 0, ModuloBins 100 0]\<rparr> demo_X =
     Inr (Array2 2 [[12, 2], [12, 2], [30, 4]])"
  by (simp add: demo_X_def Bins_value_to_id_def bins_apply_def
      upt_rec zeros_def vectorize_def column_def set_column_def py_int_def eval_nat_numeral)

section \<open>Properties of CGCluster\<close>

subsection \<open>Row count of the coarse-grained matrix\<close>

text \<open>
  Claim C5: whenever \<open>coarse_grain\<close> accepts \<open>X\<close>, the matrix of deduplicated bin centers
  has at most as many rows as \<open>X\<close>, and exactly as many if and only if the bin-id rows
  of \<open>X\<close> under the configured bin functions are pairwise distinct.
\<close>

theorem coarse_grain_row_count:
  assumes "coarse_grain self X h = (Inr Y, h')"
  shows "n_rows Y \<le> n_rows X \<and>
         (\<exists>ids. Bins_value_to_id (bins_heap h' (bins self)) X = Inr ids \<and>
                (n_rows Y = n_rows X \<longleftrightarrow> distinct (rows_of ids)))"
proof -
  from assms obtain ids where
    ids: "Bins_value_to_id (bins_heap h' (bins self)) X = Inr ids" and
    Y: "Bins_id_to_bin_center (bins_heap h' (bins self)) (unique_rows ids) = Inr Y"
    by (auto simp: coarse_grain_def Let_def
        split: ndarray.splits prod.splits sum.splits if_splits)
  have 1: "n_rows ids = n_rows X"
    using ids bins_apply_rows unfolding Bins_value_to_id_def by blast
  have 2: "n_rows Y = n_rows (unique_rows ids)"
    using Y bins_apply_rows unfolding Bins_id_to_bin_center_def by blast
  show ?thesis using ids 1 2 n_rows_unique_le [of ids] n_rows_unique_eq [of ids] by auto
qed

theorem coarse_grain_row_count_witness:
  "fst (coarse_grain (fst demo_cg) demo_X (snd demo_km)) =
     Inr (Array2 2 [[1250, 250], [3050, 450]]) \<and>
   n_rows (Array2 2 [[1250, 250], [3050, 450 :: real]]) \<le> n_rows demo_X \<and>
   n_rows (Array2 2 [[1250, 250], [3050, 450 :: real]]) \<noteq> n_rows demo_X \<and>
   \<not> distinct (rows_of (Array2 2 [[12, 2], [12, 2], [30, 4 :: int]]))"
proof -
  have z: "get_num_axes (bins_heap (snd demo_km) (bins (fst demo_cg))) = 0"
    by (simp add: demo_km_bins get_num_axes_def Bins_new_def)
  note cg = demo_coarse_grain [OF z]
  have 1: "fst (coarse_grain (fst demo_cg) demo_X (snd demo_km)) =
             Inr (Array2 2 [[1250, 250], [3050, 450]])"
    by (simp add: cg)
  have 2: "n_rows (Array2 2 [[1250, 250], [3050, 450 :: real]]) \<le> n_rows demo_X"
    using coarse_grain_row_count [OF cg] by blast
  have 3: "n_rows (Array2 2 [[1250, 250], [3050, 450 :: real]]) \<noteq> n_rows demo_X"
    by (simp add: demo_X_def)
  have 4: "\<not> distinct (rows_of (Array2 2 [[12, 2], [12, 2], [30, 4 :: int]]))"
    by simp
  show ?thesis using 1 2 3 4 by blast
qed

lemma demo_one_axis_bins:
  "bins_heap demo_one_axis 0 =
     \<lparr>default_binf = ModuloBins_class, bin_functions = [ModuloBins 25 0]\<rparr>"
  "a \<noteq> 0 \<Longrightarrow> bins_heap demo_one_axis a = Bins_new None"
  by (simp_all add: demo_one_axis_def demo_cg_obj demo_km_bins add_axis_def Bins_new_def
      ModuloBins_init_def)

subsection \<open>Zero axes against too few axes\<close>




subsection \<open>fit_uniform_coarse_grain\<close>

text \<open>
  Claim C7: \<open>fit_uniform_coarse_grain(n_features, strategy)\<close> replaces the stored axes, so
  that afterwards there are exactly \<open>n_features\<close> of them. The code appends (lemma
  \<open>fit_uniform_coarse_grain_appends\<close>): on a \<open>Bins\<close> that holds one axis,
  \<open>fit_uniform_coarse_grain(2)\<close> leaves three axes, the old one first.
\<close>

theorem fit_uniform_keeps_previous_axes:
  "get_num_axes (bins_heap demo_one_axis (bins (fst demo_cg))) = 1 \<and>
   fst (fit_uniform_coarse_grain (fst demo_cg) 2 None demo_one_axis) = Inr () \<and>
   get_num_axes (bins_heap (snd (fit_uniform_coarse_grain (fst demo_cg) 2 None demo_one_axis))
      (bins (fst demo_cg))) = 3 \<and>
   bin_functions (bins_heap (snd (fit_uniform_coarse_grain (fst demo_cg) 2 None demo_one_axis))
      (bins (fst demo_cg))) = [ModuloBins 25 0, ModuloBins 100 0, ModuloBins 100 0]"
  by (simp add: fit_uniform_coarse_grain_appends get_num_axes_def demo_cg_obj
      demo_one_axis_bins ModuloBins_init_def eval_nat_numeral)


section \<open>Effects on the store\<close>

lemma coarse_grain_heap:
  "\<exists>B. snd (coarse_grain self X h) = h\<lparr>bins_heap := (bins_heap h)(bins self := B)\<rparr>"
proof (cases X)
  case (Array1 xs)
  have "h = h\<lparr>bins_heap := (bins_heap h)(bins self := bins_heap h (bins self))\<rparr>" by simp
  then show ?thesis unfolding Array1 coarse_grain_def by (metis ndarray.simps(5) snd_conv)
next
  case (Array2 c rows)
  have id: "h = h\<lparr>bins_heap := (bins_heap h)(bins self := bins_heap h (bins self))\<rparr>" by simp
  show ?thesis
  proof (cases "get_num_axes (bins_heap h (bins self)) = 0")
    case True
    then show ?thesis
      unfolding Array2
      by (auto simp: coarse_grain_def fit_uniform_coarse_grain_appends split: sum.splits)
  next
    case False
    then have "snd (coarse_grain self X h) = h"
      unfolding Array2 by (auto simp: coarse_grain_def split: sum.splits)
    then show ?thesis using id by metis
  qed
qed

lemma coarse_grain_frame:
  assumes "coarse_grain self X h = (r, h')"
  shows "model_heap h' = model_heap h" "next_addr h' = next_addr h"
        "a \<noteq> bins self \<Longrightarrow> bins_heap h' a = bins_heap h a"
proof -
  obtain B where "snd (coarse_grain self X h) = h\<lparr>bins_heap := (bins_heap h)(bins self := B)\<rparr>"
    using coarse_grain_heap by blast
  then have h': "h' = h\<lparr>bins_heap := (bins_heap h)(bins self := B)\<rparr>" using assms by simp
  show "model_heap h' = model_heap h" "next_addr h' = next_addr h"
        "a \<noteq> bins self \<Longrightarrow> bins_heap h' a = bins_heap h a"
    by (simp_all add: h')
qed

lemma coarse_grain_autofill:
  assumes "get_num_axes (bins_heap h (bins self)) = 0"
  shows "bin_functions (bins_heap (snd (coarse_grain self (Array2 n rows) h)) (bins self)) =
           replicate n (ModuloBins_init 100 0)"
  using assms
  by (auto simp: coarse_grain_def fit_uniform_coarse_grain_appends get_num_axes_def
      split: sum.splits)

lemma update_model_heap:
  "update_model a f h = (r, h') \<longleftrightarrow>
     r = fst (f (model_heap h a)) \<and>
     h' = h\<lparr>model_heap := (model_heap h)(a := snd (f (model_heap h a)))\<rparr>"
  by (auto simp: update_model_def split: prod.splits)

lemma demo_KMCalico_fit:
  "KMCalico_fit rec_ops \<lparr>bins = 2, model = 3, coarse_model = 5, fine_model = 6\<rparr> demo_X
      (snd demo_km) =
   (Inr (),
    (snd demo_km)\<lparr>bins_heap := (bins_heap (snd demo_km))
         (2 := \<lparr>default_binf = ModuloBins_class,
                 bin_functions = [ModuloBins 100 0, ModuloBins 100 0]\<rparr>),
       model_heap := (model_heap (snd demo_km))
         (5 := \<lparr>rec_params = [N_init_auto],
                 rec_fitted = Some (Array2 2 [[1250, 250], [3050, 450]])\<rparr>,
          6 := \<lparr>rec_params = [Init (Array2 2 [[1250, 250], [3050, 450]]), N_init 1],
                 rec_fitted = Some demo_X\<rparr>)\<rparr>)"
proof -
  have z: "get_num_axes (bins_heap (snd demo_km)
              (bins \<lparr>bins = 2, model = 3, coarse_model = 5, fine_model = 6\<rparr>)) = 0"
    by (simp add: demo_km_bins get_num_axes_def Bins_new_def)
  show ?thesis
    by (simp add: KMCalico_fit_def demo_coarse_grain [OF z] update_model_def rec_ops_def
        demo_km_models demo_km_bins Bins_new_def)
qed

section \<open>Properties of KMCalico\<close>

text \<open>
  Claim C8: \<open>KMCalico.fit(X)\<close> coarse-grains \<open>X\<close> and fits \<open>coarse_model\<close> on the
  deduplicated centers, sets \<open>fine_model\<close>'s \<open>init\<close> parameter to exactly the centers of
  that coarse fit, and fits \<open>fine_model\<close> on \<open>X\<close> itself. For an object whose coarse and
  fine models are different objects (as \<open>__init__\<close> builds them), \<open>fit\<close> succeeds exactly
  when these steps succeed, and the two models end in the states the steps produce.
\<close>

theorem KMCalico_fit_stages:
  assumes "coarse_model self \<noteq> fine_model self"
  shows "KMCalico_fit ops self X h = (Inr (), h') \<longleftrightarrow>
         (\<exists>centers h1 cm cc fm1 fm2.
            coarse_grain self X h = (Inr centers, h1) \<and>
            fit_op ops centers (model_heap h (coarse_model self)) = (Inr (), cm) \<and>
            cluster_centers_op ops cm = Inr cc \<and>
            set_params_op ops (Init cc) (model_heap h (fine_model self)) = (Inr (), fm1) \<and>
            fit_op ops X fm1 = (Inr (), fm2) \<and>
            h' = h1\<lparr>model_heap := (model_heap h)(coarse_model self := cm, fine_model self := fm2)\<rparr>)"
proof -
  obtain r0 h1 where cg: "coarse_grain self X h = (r0, h1)" by (cases "coarse_grain self X h")
  have mh: "model_heap h1 = model_heap h" using coarse_grain_frame(1) [OF cg] .
  show ?thesis
  proof (cases r0)
    case (Inl e)
    then show ?thesis by (simp add: KMCalico_fit_def cg)
  next
    case (Inr centers)
    obtain r1 cm where f1: "fit_op ops centers (model_heap h (coarse_model self)) = (r1, cm)"
      by (cases "fit_op ops centers (model_heap h (coarse_model self))")
    define h2 where "h2 = h1\<lparr>model_heap := (model_heap h)(coarse_model self := cm)\<rparr>"
    have u1: "update_model (coarse_model self) (fit_op ops centers) h1 = (r1, h2)"
      by (simp add: update_model_def mh f1 h2_def)
    show ?thesis
    proof (cases r1)
      case (Inl e)
      then show ?thesis by (simp add: KMCalico_fit_def cg Inr u1 f1)
    next
      case r1: (Inr u)
      show ?thesis
      proof (cases "cluster_centers_op ops cm")
        case (Inl e)
        then show ?thesis by (simp add: KMCalico_fit_def cg Inr u1 f1 r1 h2_def)
      next
        case cc: (Inr cc)
        obtain r2 fm1 where
          f2: "set_params_op ops (Init cc) (model_heap h (fine_model self)) = (r2, fm1)"
          by (cases "set_params_op ops (Init cc) (model_heap h (fine_model self))")
        define h3 where
          "h3 = h1\<lparr>model_heap := (model_heap h)(coarse_model self := cm, fine_model self := fm1)\<rparr>"
        have u2: "update_model (fine_model self) (set_params_op ops (Init cc)) h2 = (r2, h3)"
          using assms by (simp add: update_model_def h2_def f2 h3_def)
        show ?thesis
        proof (cases r2)
          case (Inl e)
          then show ?thesis
            using assms
            by (simp add: KMCalico_fit_def cg Inr u1 f1 r1 cc h2_def u2 [unfolded h2_def] f2)
        next
          case r2: (Inr u')
          obtain r3 fm2 where f3: "fit_op ops X fm1 = (r3, fm2)" by (cases "fit_op ops X fm1")
          have u3: "update_model (fine_model self) (fit_op ops X) h3 =
                (r3, h1\<lparr>model_heap := (model_heap h)(coarse_model self := cm, fine_model self := fm2)\<rparr>)"
            by (simp add: update_model_def h3_def f3)
          have "KMCalico_fit ops self X h =
                (r3, h1\<lparr>model_heap := (model_heap h)(coarse_model self := cm, fine_model self := fm2)\<rparr>)"
            using assms
            by (simp add: KMCalico_fit_def cg Inr u1 r1 cc h2_def u2 [unfolded h2_def] r2 u3)
          then show ?thesis
            by (auto simp: cg Inr f1 r1 cc f2 r2 f3)
        qed
      qed
    qed
  qed
qed

theorem KMCalico_fit_stages_witness:
  "fst demo_km = Inr \<lparr>bins = 2, model = 3, coarse_model = 5, fine_model = 6\<rparr> \<and>
   coarse_model \<lparr>bins = 2, model = 3, coarse_model = 5, fine_model = 6\<rparr> \<noteq>
     fine_model \<lparr>bins = 2, model = 3, coarse_model = 5, fine_model = 6\<rparr> \<and>
   (\<exists>h'. KMCalico_fit rec_ops \<lparr>bins = 2, model = 3, coarse_model = 5, fine_model = 6\<rparr>
            demo_X (snd demo_km) = (Inr (), h') \<and>
      model_heap h' 5 = \<lparr>rec_params = [N_init_auto],
                 rec_fitted = Some (Array2 2 [[1250, 250], [3050, 450]])\<rparr> \<and>
      model_heap h' 6 =
        \<lparr>rec_params = [Init (Array2 2 [[1250, 250], [3050, 450]]), N_init 1],
         rec_fitted = Some demo_X\<rparr>)"
proof -
  have d: "coarse_model \<lparr>bins = 2, model = 3, coarse_model = 5, fine_model = 6\<rparr> \<noteq>
     fine_model \<lparr>bins = 2, model = 3, coarse_model = 5, fine_model = 6\<rparr>" by simp
  note fit = demo_KMCalico_fit
  from KMCalico_fit_stages [OF d, THEN iffD1, OF fit] obtain centers h1 cm cc fm1 fm2 where
    "coarse_grain \<lparr>bins = 2, model = 3, coarse_model = 5, fine_model = 6\<rparr> demo_X (snd demo_km)
       = (Inr centers, h1)"
    by blast
  then show ?thesis using d by (simp add: demo_km_obj fit)
qed


section \<open>The template model\<close>

lemma CGCluster_fit_frame:
  assumes "a \<noteq> coarse_model self"
  shows "model_heap (snd (CGCluster_fit ops self X h)) a = model_heap h a"
proof -
  obtain r0 h1 where cg: "coarse_grain self X h = (r0, h1)" by (cases "coarse_grain self X h")
  have mh: "model_heap h1 = model_heap h" using coarse_grain_frame(1) [OF cg] .
  show ?thesis
  proof (cases r0)
    case (Inl e)
    then show ?thesis by (simp add: CGCluster_fit_def cg mh)
  next
    case (Inr centers)
    then show ?thesis using assms
      by (simp add: CGCluster_fit_def cg mh update_model_def split: prod.splits)
  qed
qed

lemma KMCalico_fit_frame:
  assumes "a \<noteq> coarse_model self" and "a \<noteq> fine_model self"
  shows "model_heap (snd (KMCalico_fit ops self X h)) a = model_heap h a"
proof -
  obtain r0 h1 where cg: "coarse_grain self X h = (r0, h1)" by (cases "coarse_grain self X h")
  have mh: "model_heap h1 a = model_heap h a" using coarse_grain_frame(1) [OF cg] by simp
  have step: "model_heap h'' a = model_heap h' a"
    if "update_model b f h' = (r, h'')" and "b = coarse_model self \<or> b = fine_model self"
    for b f r and h' h'' :: "'a heap"
    using that assms by (auto simp: update_model_heap)
  show ?thesis
  proof (cases r0)
    case (Inl e)
    then show ?thesis by (simp add: KMCalico_fit_def cg mh)
  next
    case (Inr centers)
    obtain r1 h2 where u1: "update_model (coarse_model self) (fit_op ops centers) h1 = (r1, h2)"
      by (cases "update_model (coarse_model self) (fit_op ops centers) h1")
    have m2: "model_heap h2 a = model_heap h a" using step [OF u1] mh by simp
    show ?thesis
    proof (cases "\<exists>cc. r1 = Inr () \<and>
                    cluster_centers_op ops (model_heap h2 (coarse_model self)) = Inr cc")
      case False
      then have "snd (KMCalico_fit ops self X h) = h2"
        by (auto simp: KMCalico_fit_def cg Inr u1 split: sum.splits)
      then show ?thesis using m2 by simp
    next
      case True
      then obtain cc where r1: "r1 = Inr ()" and
        cc: "cluster_centers_op ops (model_heap h2 (coarse_model self)) = Inr cc" by blast
      obtain r2 h3 where
        u2: "update_model (fine_model self) (set_params_op ops (Init cc)) h2 = (r2, h3)"
        by (cases "update_model (fine_model self) (set_params_op ops (Init cc)) h2")
      have m3: "model_heap h3 a = model_heap h a" using step [OF u2] m2 by simp
      obtain r3 h4 where u3: "update_model (fine_model self) (fit_op ops X) h3 = (r3, h4)"
        by (cases "update_model (fine_model self) (fit_op ops X) h3")
      have m4: "model_heap h4 a = model_heap h a" using step [OF u3] m3 by simp
      have "snd (KMCalico_fit ops self X h) = h3 \<or> snd (KMCalico_fit ops self X h) = h4"
        by (cases r2) (simp_all add: KMCalico_fit_def cg Inr u1 r1 cc u2 u3)
      then show ?thesis using m3 m4 by auto
    qed
  qed
qed

lemma KMCalico_predict_heap:
  "snd (KMCalico_predict ops self X mode rc h) =
     (if mode = ''default''
      then h\<lparr>model_heap := (model_heap h)(model self :=
              snd (fit_predict_op ops X (model_heap h (model self))))\<rparr>
      else h)"
  by (auto simp: KMCalico_predict_def Let_def update_model_def split: prod.splits sum.splits)

lemma CGCluster_predict_heap:
  "snd (CGCluster_predict ops self X mode h) =
     (if mode = ''default''
      then h\<lparr>model_heap := (model_heap h)(model self :=
              snd (fit_predict_op ops X (model_heap h (model self))))\<rparr>
      else h)"
  by (auto simp: CGCluster_predict_def update_model_def split: prod.splits)

lemma CGCluster_init_fresh:
  assumes "CGCluster_init d bins_arg model_arg h = (c, h')" and "model c < next_addr h"
  shows "model c \<noteq> coarse_model c" "model_heap h' (model c) = model_heap h (model c)"
        "model_heap h' (coarse_model c) = model_heap h (model c)"
  using assms
  by (auto simp: CGCluster_init_def deepcopy_def alloc_model_def Let_def)

lemma demo_km_model_1: "model_heap (snd demo_km) (Suc 0) = rec_new"
  using demo_km_models(1) by simp

lemma KMCalico_init_fresh:
  assumes "KMCalico_init ops d bins_arg model_arg h = (Inr k, h')"
  shows "coarse_model k = next_addr h" "fine_model k = Suc (next_addr h)"
        "coarse_model k \<noteq> fine_model k"
        "model k < next_addr h \<Longrightarrow> model k \<noteq> coarse_model k \<and> model k \<noteq> fine_model k"
  using assms
  by (auto simp: KMCalico_init_def deepcopy_def alloc_model_def update_model_def Let_def
      split: prod.splits sum.splits)

text \<open>
  Claim C9, as the spec states it: no operation mutates the caller's template model,
  and \<open>predict\<close> with mode \<open>default\<close> leaves its state unchanged. But \<open>self.model\<close> is the
  caller's object itself (only \<open>coarse_model\<close> and \<open>fine_model\<close> are copies), and mode
  \<open>default\<close> calls \<open>self.model.fit_predict(X)\<close>: with a model that records what it was
  fit on, the template is unfitted before the call and fitted on \<open>X\<close> after it.
\<close>

theorem predict_default_refits_template_counterexample:
  "model (fst demo_cg) = 1 \<and> model_heap (snd demo_km) 1 = rec_new \<and>
   fst (CGCluster_predict rec_ops (fst demo_cg) demo_X ''default'' (snd demo_km)) =
     Inr [0, 0, 0] \<and>
   model_heap (snd (CGCluster_predict rec_ops (fst demo_cg) demo_X ''default'' (snd demo_km))) 1
     = \<lparr>rec_params = [], rec_fitted = Some demo_X\<rparr> \<and>
   \<lparr>rec_params = [], rec_fitted = Some demo_X\<rparr> \<noteq> rec_new"
  by (simp add: CGCluster_predict_def update_model_def demo_cg_obj demo_km_model_1 rec_ops_def
      rec_new_def rec_labels_def demo_X_def)

text \<open>
  Claim C9, amended: \<open>CGCluster.fit\<close> changes no model but \<open>coarse_model\<close>, and
  \<open>KMCalico.fit\<close> none but \<open>coarse_model\<close> and \<open>fine_model\<close>, so neither changes a
  template that is a different object; \<open>predict\<close> with mode \<open>coarse\<close> or \<open>fine\<close>
  changes nothing; \<open>predict\<close> with mode \<open>default\<close> replaces the template's state by
  the state \<open>fit_predict(X)\<close> leaves it in, and changes no other model.
\<close>

theorem template_model_frame:
  "(\<forall>a. a \<noteq> coarse_model c \<longrightarrow>
       model_heap (snd (CGCluster_fit ops c X h)) a = model_heap h a) \<and>
   (\<forall>a. a \<noteq> coarse_model k \<and> a \<noteq> fine_model k \<longrightarrow>
       model_heap (snd (KMCalico_fit ops k X h)) a = model_heap h a) \<and>
   snd (CGCluster_predict ops c X ''coarse'' h) = h \<and>
   snd (KMCalico_predict ops k X ''coarse'' rc h) = h \<and>
   snd (KMCalico_predict ops k X ''fine'' rc h) = h \<and>
   model_heap (snd (CGCluster_predict ops c X ''default'' h)) =
     (model_heap h)(model c := snd (fit_predict_op ops X (model_heap h (model c)))) \<and>
   model_heap (snd (KMCalico_predict ops k X ''default'' rc h)) =
     (model_heap h)(model k := snd (fit_predict_op ops X (model_heap h (model k))))"
  by (simp add: CGCluster_fit_frame KMCalico_fit_frame KMCalico_predict_heap
      CGCluster_predict_heap)

theorem template_model_frame_witness:
  "model (fst demo_cg) \<noteq> coarse_model (fst demo_cg) \<and>
   model_heap (snd (CGCluster_fit rec_ops (fst demo_cg) demo_X (snd demo_km)))
      (model (fst demo_cg)) = rec_new \<and>
   model_heap (snd (KMCalico_fit rec_ops
         \<lparr>bins = 2, model = 3, coarse_model = 5, fine_model = 6\<rparr> demo_X (snd demo_km))) 3
     = rec_new \<and>
   model_heap (snd (CGCluster_predict rec_ops (fst demo_cg) demo_X ''default'' (snd demo_km)))
      (model (fst demo_cg)) = \<lparr>rec_params = [], rec_fitted = Some demo_X\<rparr>"
proof -
  note T = template_model_frame [of "fst demo_cg" rec_ops demo_X "snd demo_km"
              "\<lparr>bins = 2, model = 3, coarse_model = 5, fine_model = 6\<rparr>" False]
  have d: "model (fst demo_cg) \<noteq> coarse_model (fst demo_cg)" by (simp add: demo_cg_obj)
  have m: "model_heap (snd demo_km) (model (fst demo_cg)) = rec_new"
    by (simp add: demo_cg_obj demo_km_model_1)
  from T d have 1: "model_heap (snd (CGCluster_fit rec_ops (fst demo_cg) demo_X (snd demo_km)))
      (model (fst demo_cg)) = model_heap (snd demo_km) (model (fst demo_cg))"
    by blast
  from T have "model_heap (snd (KMCalico_fit rec_ops
         \<lparr>bins = 2, model = 3, coarse_model = 5, fine_model = 6\<rparr> demo_X (snd demo_km))) 3
     = model_heap (snd demo_km) 3"
    by simp
  then have 2: "model_heap (snd (KMCalico_fit rec_ops
         \<lparr>bins = 2, model = 3, coarse_model = 5, fine_model = 6\<rparr> demo_X (snd demo_km))) 3
     = rec_new"
    by (simp add: demo_km_models)
  from T have "model_heap (snd (CGCluster_predict rec_ops (fst demo_cg) demo_X ''default''
        (snd demo_km))) =
     (model_heap (snd demo_km))(model (fst demo_cg) :=
        snd (fit_predict_op rec_ops demo_X (model_heap (snd demo_km) (model (fst demo_cg)))))"
    by blast
  then have 3: "model_heap (snd (CGCluster_predict rec_ops (fst demo_cg) demo_X ''default''
        (snd demo_km))) (model (fst demo_cg)) = \<lparr>rec_params = [], rec_fitted = Some demo_X\<rparr>"
    by (simp add: m rec_ops_def rec_new_def)
  show ?thesis using d 1 2 3 m by simp
qed


section \<open>The shared default Bins\<close>

lemma load_module_bins_distinct:
  "load_module optics kmeans h0 = (d, h) \<Longrightarrow>
     CGCluster_default_bins d \<noteq> KMCalico_default_bins d"
  by (auto simp: load_module_def alloc_bins_def alloc_model_def)

lemma CGCluster_init_default_bins:
  "CGCluster_init d None model_arg h = (c, h') \<Longrightarrow> bins c = CGCluster_default_bins d"
  by (auto simp: CGCluster_init_def Let_def split: prod.splits)

lemma KMCalico_init_default_bins:
  "KMCalico_init ops d None model_arg h = (Inr k, h') \<Longrightarrow> bins k = KMCalico_default_bins d"
  by (auto simp: KMCalico_init_def Let_def split: prod.splits sum.splits)

lemma coarse_grain_other_bins:
  "a \<noteq> bins self \<Longrightarrow> bins_heap (snd (coarse_grain self X h)) a = bins_heap h a"
  using coarse_grain_frame(3) [of self X h "fst (coarse_grain self X h)"
          "snd (coarse_grain self X h)" a]
  by simp

lemma demo_second_cg:
  "CGCluster_init (fst demo_module) None None (snd demo_km) =
     (\<lparr>bins = 0, model = 1, coarse_model = 7\<rparr>,
      snd (CGCluster_init (fst demo_module) None None (snd demo_km)))"
  by (simp add: demo_km_def demo_cg_def demo_module_def init_ev)

lemma demo_second_km:
  "KMCalico_init rec_ops (fst demo_module) None None (snd demo_km) =
     (Inr \<lparr>bins = 2, model = 3, coarse_model = 7, fine_model = 8\<rparr>,
      snd (KMCalico_init rec_ops (fst demo_module) None None (snd demo_km)))"
  by (simp add: demo_km_def demo_cg_def demo_module_def init_ev)

text \<open>
  Claim C10, as stated: the default \<open>bins\<close> of \<open>CGCluster.__init__\<close> and
  \<open>KMCalico.__init__\<close> is a single \<open>Bins\<close> object, shared by all wrappers built without
  a \<open>bins\<close> argument, so axes added through one of them are seen by every other. The two
  \<open>__init__\<close> functions each evaluate their own \<open>Bins()\<close>: after the auto-fill through a
  default \<open>CGCluster\<close>, its \<open>Bins\<close> holds two axes and that of a default \<open>KMCalico\<close>
  still none.
\<close>

theorem default_bins_across_classes_counterexample:
  "fst demo_km = Inr \<lparr>bins = 2, model = 3, coarse_model = 5, fine_model = 6\<rparr> \<and>
   bins (fst demo_cg) = 0 \<and>
   get_num_axes (bins_heap (snd (coarse_grain (fst demo_cg) demo_X (snd demo_km))) 0) = 2 \<and>
   get_num_axes (bins_heap (snd (coarse_grain (fst demo_cg) demo_X (snd demo_km))) 2) = 0"
proof -
  have z: "get_num_axes (bins_heap (snd demo_km) (bins (fst demo_cg))) = 0"
    by (simp add: demo_km_bins get_num_axes_def Bins_new_def)
  have b: "bins (fst demo_cg) = 0" by (simp add: demo_cg_obj)
  have 1: "get_num_axes (bins_heap (snd (coarse_grain (fst demo_cg) demo_X (snd demo_km))) 0) = 2"
    by (simp add: demo_coarse_grain [OF z] b get_num_axes_def)
  have 2: "get_num_axes (bins_heap (snd (coarse_grain (fst demo_cg) demo_X (snd demo_km))) 2) = 0"
    by (simp add: demo_coarse_grain [OF z] b get_num_axes_def demo_km_bins Bins_new_def)
  show ?thesis using demo_km_obj b 1 2 by blast
qed

text \<open>
  Claim C10, amended: each of the two classes has its own default \<open>Bins\<close>, created once
  when its \<open>__init__\<close> is defined. All \<open>CGCluster\<close> objects built without a \<open>bins\<close>
  argument share one \<open>Bins\<close>, all such \<open>KMCalico\<close> objects share another, and the two
  are different objects. The axes appended by the zero-axes auto-fill of \<open>coarse_grain\<close>
  through one object are the axes of every other default-built object of the same
  class, and leave the default \<open>Bins\<close> of the other class as it was.
\<close>

theorem default_bins_shared_per_class:
  assumes "load_module optics kmeans h0 = (d, hm)"
    and "CGCluster_init d None m1 s1 = (c1, s1')"
    and "CGCluster_init d None m2 s2 = (c2, s2')"
    and "KMCalico_init ops d None m3 s3 = (Inr k1, s3')"
    and "KMCalico_init ops d None m4 s4 = (Inr k2, s4')"
  shows "bins c1 = bins c2 \<and> bins k1 = bins k2 \<and> bins c1 \<noteq> bins k1 \<and>
    (get_num_axes (bins_heap h (bins c1)) = 0 \<longrightarrow>
       bin_functions (bins_heap (snd (coarse_grain c1 (Array2 n rows) h)) (bins c2)) =
         replicate n (ModuloBins_init 100 0)) \<and>
    (get_num_axes (bins_heap h (bins k1)) = 0 \<longrightarrow>
       bin_functions (bins_heap (snd (coarse_grain k1 (Array2 n rows) h)) (bins k2)) =
         replicate n (ModuloBins_init 100 0)) \<and>
    bins_heap (snd (coarse_grain c1 X h)) (bins k1) = bins_heap h (bins k1) \<and>
    bins_heap (snd (coarse_grain k1 X h)) (bins c1) = bins_heap h (bins c1)"
proof -
  have c: "bins c1 = CGCluster_default_bins d" "bins c2 = CGCluster_default_bins d"
    using assms(2,3) by (simp_all add: CGCluster_init_default_bins)
  have k: "bins k1 = KMCalico_default_bins d" "bins k2 = KMCalico_default_bins d"
    using assms(4,5) by (simp_all add: KMCalico_init_default_bins)
  have ne: "bins c1 \<noteq> bins k1"
    using load_module_bins_distinct [OF assms(1)] c k by simp
  have 1: "bin_functions (bins_heap (snd (coarse_grain c1 (Array2 n rows) h)) (bins c2)) =
         replicate n (ModuloBins_init 100 0)"
    if "get_num_axes (bins_heap h (bins c1)) = 0"
    using coarse_grain_autofill [OF that] c by simp
  have 2: "bin_functions (bins_heap (snd (coarse_grain k1 (Array2 n rows) h)) (bins k2)) =
         replicate n (ModuloBins_init 100 0)"
    if "get_num_axes (bins_heap h (bins k1)) = 0"
    using coarse_grain_autofill [OF that] k by simp
  have 3: "bins_heap (snd (coarse_grain c1 X h)) (bins k1) = bins_heap h (bins k1)"
    using ne by (simp add: coarse_grain_other_bins)
  have 4: "bins_heap (snd (coarse_grain k1 X h)) (bins c1) = bins_heap h (bins c1)"
    using ne by (simp add: coarse_grain_other_bins)
  show ?thesis using c k ne 1 2 3 4 by simp
qed

theorem default_bins_shared_per_class_witness:
  "bins (fst demo_cg) = bins \<lparr>bins = 0, model = 1, coarse_model = 7\<rparr> \<and>
   bins \<lparr>bins = 2, model = 3, coarse_model = 5, fine_model = 6\<rparr> =
     bins \<lparr>bins = 2, model = 3, coarse_model = 7, fine_model = 8\<rparr> \<and>
   bins (fst demo_cg) \<noteq> bins \<lparr>bins = 2, model = 3, coarse_model = 5, fine_model = 6\<rparr> \<and>
   get_num_axes (bins_heap (snd demo_km) (bins (fst demo_cg))) = 0 \<and>
   bin_functions (bins_heap (snd (coarse_grain (fst demo_cg) demo_X (snd demo_km)))
      (bins \<lparr>bins = 0, model = 1, coarse_model = 7\<rparr>)) = replicate 2 (ModuloBins_init 100 0)"
proof -
  have m: "load_module rec_new rec_new (empty_heap rec_new) = (fst demo_module, snd demo_module)"
    by (simp add: demo_module_def)
  have c1: "CGCluster_init (fst demo_module) None None (snd demo_module) =
              (fst demo_cg, snd demo_cg)"
    by (simp add: demo_cg_def)
  have k1: "KMCalico_init rec_ops (fst demo_module) None None (snd demo_cg) =
              (Inr \<lparr>bins = 2, model = 3, coarse_model = 5, fine_model = 6\<rparr>, snd demo_km)"
    using demo_km_obj by (simp add: demo_km_def prod_eq_iff)
  have z: "get_num_axes (bins_heap (snd demo_km) (bins (fst demo_cg))) = 0"
    by (simp add: demo_km_bins get_num_axes_def Bins_new_def)
  show ?thesis
    using z default_bins_shared_per_class [OF m c1 demo_second_cg k1 demo_second_km, of "snd demo_km" 2
        "[[1253, 254], [1260, 270], [3098, 490]]" demo_X]
    by (simp add: demo_X_def)
qed

end
